theory Spec2Isabelle
  imports Main
begin

section \<open>The hosting construct of \<^verbatim>\<open>src/aws-amplify-hosting.ts\<close>\<close>

text \<open>
  The file declares two CDK constructs, \<^verbatim>\<open>AmplifyHosting\<close> and \<^verbatim>\<open>Repository\<close>. Their
  constructors only call the CDK library: they create child constructs, grant rights, add
  environment variables and declare dependencies. The embedding threads the construct tree
  through every constructor as an explicit state: the list of the library calls made so
  far, in program order (\<open>Synth\<close>). The objects the constructors hand back are records.

  Values that the library supplies as late-bound tokens (\<^verbatim>\<open>this.repositoryCloneUrlGrc\<close>,
  \<^verbatim>\<open>this.importProvider.serviceToken\<close>, \<^verbatim>\<open>this.app.appId\<close>, \<^verbatim>\<open>cdk.Aws.REGION\<close>, ...) and the
  built-in \<^verbatim>\<open>JSON.stringify\<close> are parameters of the model (\<open>Cdk\<close>). The library's own
  validation of construct ids (it rejects an empty or a duplicate id) is library code and
  is not part of the model.
\<close>

subsection \<open>Strings: \<^verbatim>\<open>split\<close>, \<^verbatim>\<open>join\<close>, \<^verbatim>\<open>replace\<close>\<close>

text \<open>
  \<^verbatim>\<open>s.split(sep)\<close> for a one-character separator: the segments between the occurrences
  of the separator, so the empty string has the one segment \<^verbatim>\<open>''\<close>. The accumulator \<open>seg\<close>
  holds the characters of the current segment.
\<close>

fun split_from :: "char \<Rightarrow> string \<Rightarrow> string \<Rightarrow> string list" where
  "split_from sep seg [] = [seg]"
| "split_from sep seg (c # cs) =
     (if c = sep then seg # split_from sep [] cs else split_from sep (seg @ [c]) cs)"

definition split :: "string \<Rightarrow> char \<Rightarrow> string list" where
  "split s sep = split_from sep [] s"

text \<open>\<^verbatim>\<open>xs.join(sep)\<close>: the empty array gives \<^verbatim>\<open>''\<close>.\<close>

fun join :: "string list \<Rightarrow> string \<Rightarrow> string" where
  "join [] sep = []"
| "join [x] sep = x"
| "join (x # y # ys) sep = x @ sep @ join (y # ys) sep"

text \<open>\<^verbatim>\<open>s.replace(/\//g, '')\<close>: every \<^verbatim>\<open>/\<close> is removed.\<close>

definition replace_slashes :: "string \<Rightarrow> string" where
  "replace_slashes s = filter (\<lambda>c. c \<noteq> CHR ''/'') s"

text \<open>Line 94: \<^verbatim>\<open>appRoot.split('/').map(x => x = '..').join('/') + '/'\<close>.\<close>

definition outputFileTracingRoot :: "string \<Rightarrow> string" where
  "outputFileTracingRoot appRoot = join (map (\<lambda>x. ''..'') (split appRoot CHR ''/'')) ''/'' @ ''/''"

subsection \<open>Library values\<close>

type_synonym path = string

text \<open>\<^verbatim>\<open>node.path\<close> of a construct created with the id \<open>ident\<close> under the scope with path \<open>scope\<close>.\<close>

definition node_path :: "path \<Rightarrow> string \<Rightarrow> path" where
  "node_path scope ident = (if scope = [] then ident else scope @ ''/'' @ ident)"

datatype Duration = Duration_minutes nat

fun toSeconds :: "Duration \<Rightarrow> nat" where
  "toSeconds (Duration_minutes m) = 60 * m"

datatype Size = Size_gibibytes nat

datatype Runtime = PYTHON_3_9

datatype LiveUpdateType = nvm | npm | internal

record LiveUpdate =
  pkg :: string
  type :: LiveUpdateType
  version :: string

record Cdk =
  repositoryCloneUrlGrc :: "path \<Rightarrow> string"
  serviceToken :: "path \<Rightarrow> string"
  appId :: "path \<Rightarrow> string"
  defaultDomain :: "path \<Rightarrow> string"
  PARTITION :: string
  REGION :: string
  ACCOUNT_ID :: string
  JSON_stringify :: "LiveUpdate list \<Rightarrow> string"

subsection \<open>Properties of the constructs\<close>

record BundlingOptions =
  image :: Runtime
  command :: "string list"
  user :: string

record FunctionProps =
  description :: string
  runtime :: Runtime
  code :: string
  bundling :: BundlingOptions
  handler :: string
  memorySize :: nat
  ephemeralStorageSize :: Size
  timeout :: Duration

record CustomResourceProps =
  resourceType :: string
  cr_serviceToken :: string
  properties :: "(string \<times> string) list"

record RoleProps =
  role_description :: string
  role_path :: string
  assumedBy :: string

record Frontend =
  preBuild :: "string list"
  build :: "string list"
  postBuild :: "string list"
  baseDirectory :: string
  files :: "string list"
  cache_paths :: "string list"

record Application =
  app_appRoot :: string
  frontend :: Frontend

record BuildSpec =
  spec_version :: nat
  applications :: "Application list"

record AppProps =
  appName :: string
  role :: path
  sourceCodeProvider :: path
  buildSpec :: BuildSpec
  app_environmentVariables :: "(string \<times> string) list"

datatype RedirectStatus = NOT_FOUND_REWRITE

record CustomRule =
  source :: string
  target :: string
  status :: RedirectStatus

record BranchOptions =
  branchName :: string
  stage :: string
  autoBuild :: bool
  branch_environmentVariables :: "(string \<times> string) list"

record PolicyStatement =
  sid :: string
  actions :: "string list"
  resources :: "string list"

record PolicyProps =
  policyName :: string
  statements :: "PolicyStatement list"

subsection \<open>The construct tree\<close>

datatype Resource =
    CodeCommitRepository string
  | LambdaFunction FunctionProps
  | Provider path
  | CustomResource CustomResourceProps
  | Role RoleProps
  | App AppProps
  | Branch path BranchOptions
  | Policy PolicyProps
  | CfnOutput string

text \<open>One library call that changes the construct tree.\<close>

datatype Call =
    New path Resource
  | grantPullPush path path
  | addPropertyOverride path string string
  | addEnvironment path string string
  | addCustomRule path CustomRule
  | addDependency path path
  | attachToRole path path

type_synonym Synth = "Call list"

text \<open>\<^verbatim>\<open>construct.node.defaultChild\<close>: the child with the id \<^verbatim>\<open>Resource\<close>.\<close>

definition defaultChild :: "path \<Rightarrow> path" where
  "defaultChild p = node_path p ''Resource''"

subsection \<open>\<^verbatim>\<open>class Repository\<close>\<close>

record Repository =
  repo_path :: path
  repositoryName :: string
  importFunction :: path
  importProvider :: path

text \<open>The \<^verbatim>\<open>awk\<close> script of the bundling commands, with its single quotes.\<close>

definition awk_copy_libs :: string where
  \<open>awk_copy_libs = [CHR 0x27] @ ''NF == 4 { system("cp " $3 " /var/task/local/lib/") }'' @ [CHR 0x27]\<close>

definition importFunctionProps :: FunctionProps where
  "importFunctionProps =
    \<lparr> description = ''Copy Git Repository'',
      runtime = PYTHON_3_9,
      code = ''./src/functions/copy-git-repo'',
      bundling =
        \<lparr> image = PYTHON_3_9,
          command =
            [ ''/bin/bash'', ''-c'',
              join
                [ ''mkdir -p /var/task/local/{bin,lib}'',
                  ''yum install -y git'',
                  ''cp /usr/bin/git /usr/libexec/git-core/git-remote-https /usr/libexec/git-core/git-remote-http /var/task/local/bin'',
                  ''ldd /usr/bin/git | awk '' @ awk_copy_libs,
                  ''ldd /usr/libexec/git-core/git-remote-https | awk '' @ awk_copy_libs,
                  ''ldd /usr/libexec/git-core/git-remote-http | awk '' @ awk_copy_libs,
                  ''pip install -r requirements.txt -t /var/task'',
                  ''cp -au /asset-input/index.py /var/task'',
                  ''cp -aur /var/task/* /asset-output'' ]
                ''&&'' ],
          user = ''root'' \<rparr>,
      handler = ''index.handler'',
      memorySize = 2048,
      ephemeralStorageSize = Size_gibibytes 2,
      timeout = Duration_minutes 3 \<rparr>"

text \<open>
  The constructor (lines 147-180): \<^verbatim>\<open>super\<close>, the import function, the grant, the
  provider, in this order.
\<close>

definition Repository_new :: "path \<Rightarrow> string \<Rightarrow> string \<Rightarrow> Synth \<Rightarrow> Repository \<times> Synth" where
  "Repository_new scope ident name s =
    (let this = node_path scope ident;
         s1 = s @ [New this (CodeCommitRepository name)];
         importFunction = node_path this ''ImportFunction'';
         s2 = s1 @ [New importFunction (LambdaFunction importFunctionProps)];
         s3 = s2 @ [grantPullPush this importFunction];
         importProvider = node_path this ''ImportProvider'';
         s4 = s3 @ [New importProvider (Provider importFunction)]
     in (\<lparr> repo_path = this, repositoryName = name,
            importFunction = importFunction, importProvider = importProvider \<rparr>, s4))"

text \<open>\<^verbatim>\<open>importFromUrl\<close> (lines 182-193); it returns the new custom resource's path.\<close>

definition importFromUrl :: "Cdk \<Rightarrow> Repository \<Rightarrow> string \<Rightarrow> string \<Rightarrow> string \<Rightarrow> Synth \<Rightarrow> path \<times> Synth" where
  "importFromUrl cdk this targetBranch sourceRepoUrlHttp sourceBranch s =
    (let job = node_path (repo_path this) targetBranch
     in (job, s @ [New job (CustomResource
            \<lparr> resourceType = ''Custom::RepoImportJob'',
              cr_serviceToken = serviceToken cdk (importProvider this),
              properties =
                [ (''SourceRepo'', sourceRepoUrlHttp),
                  (''SourceBranch'', sourceBranch),
                  (''TargetRepo'', repositoryCloneUrlGrc cdk (repo_path this)),
                  (''TargetBranch'', targetBranch) ] \<rparr>)]))"

subsection \<open>\<^verbatim>\<open>class AmplifyHosting\<close>\<close>

text \<open>The build specification (lines 42-83); \<open>envKeys\<close> are the keys of \<^verbatim>\<open>environmentVariables\<close>.\<close>

definition buildSpecOf :: "string \<Rightarrow> string list \<Rightarrow> BuildSpec" where
  "buildSpecOf appRoot envKeys =
    \<lparr> spec_version = 1,
      applications =
        [ \<lparr> app_appRoot = appRoot,
            frontend =
              \<lparr> preBuild =
                  [ ''env | grep '' @ join (map (\<lambda>key. ''-e '' @ key) envKeys) '' '' @ '' >> .env.production'',
                    ''env | grep -e NEXT_PUBLIC_ >> .env.production'',
                    ''npm ci || npm install'' ],
                build =
                  [ ''npm run build'',
                    ''npm prune --omit=dev'' ],
                postBuild =
                  [ ''ln -s '' @ appRoot @ ''/server.js .next/standalone/server.js'',
                    ''cp -r public .next/standalone/'' @ appRoot @ ''/public'',
                    ''cp -r .next/static .next/standalone/'' @ appRoot @ ''/.next/static'',
                    ''cp .env .env.production .next/standalone/'' @ appRoot,
                    ''ln -s /tmp .next/standalone/'' @ appRoot @ ''/.next/cache'' ],
                baseDirectory = ''.next'',
                files = [''**/*''],
                cache_paths = [''node_modules/**/*''] \<rparr> \<rparr> ] \<rparr>"

text \<open>The logging policy (lines 115-134) of the app with path \<open>app\<close>.\<close>

definition amplifySSRLoggingPolicyProps :: "Cdk \<Rightarrow> path \<Rightarrow> PolicyProps" where
  "amplifySSRLoggingPolicyProps cdk app =
    (let arn = ''arn:'' @ PARTITION cdk @ '':logs:'' @ REGION cdk @ '':'' @ ACCOUNT_ID cdk @ '':log-group:''
     in \<lparr> policyName = ''AmplifySSRLoggingPolicy-'' @ appId cdk app,
          statements =
            [ \<lparr> sid = ''PushLogs'',
                actions = [''logs:CreateLogStream'', ''logs:PutLogEvents''],
                resources = [arn @ ''/aws/amplify/'' @ appId cdk app @ '':log-stream:*''] \<rparr>,
              \<lparr> sid = ''CreateLogGroup'',
                actions = [''logs:CreateLogGroup''],
                resources = [arn @ ''/aws/amplify/*''] \<rparr>,
              \<lparr> sid = ''DescribeLogGroups'',
                actions = [''logs:DescribeLogGroups''],
                resources = [arn @ ''*''] \<rparr> ] \<rparr>)"

record AmplifyHostingProps =
  sourceRepo :: string
  sourceBranch :: string
  appRoot :: string
  environmentVariables :: "(string \<times> string) list option"
  liveUpdates :: "LiveUpdate list"

record AmplifyHosting =
  app :: path
  prodBranch :: path
  prodBranchUrl :: string

text \<open>
  The constructor (lines 25-140), statement by statement. \<^verbatim>\<open>addBranch\<close> creates the branch
  as a child of the app; the branch's \<^verbatim>\<open>branchName\<close> attribute stands for the name it was
  created with.
\<close>

definition AmplifyHosting_new ::
    "Cdk \<Rightarrow> path \<Rightarrow> string \<Rightarrow> AmplifyHostingProps \<Rightarrow> Synth \<Rightarrow> AmplifyHosting \<times> Synth" where
  "AmplifyHosting_new cdk scope ident props s =
    (let this = node_path scope ident;
         envVars = (case environmentVariables props of None \<Rightarrow> [] | Some e \<Rightarrow> e);
         (repository, s1) = Repository_new this ''Repo'' (replace_slashes this) s;
         (repoImportJob, s2) =
            importFromUrl cdk repository ''main'' (sourceRepo props) (sourceBranch props) s1;
         amplifySSRLoggingRole = node_path this ''AmplifySSRLoggingRole'';
         s3 = s2 @ [New amplifySSRLoggingRole (Role
                \<lparr> role_description = ''The service role that will be used by AWS Amplify for SSR app logging.'',
                  role_path = ''/service-role/'',
                  assumedBy = ''amplify.amazonaws.com'' \<rparr>)];
         envKeys = map fst envVars;
         buildSpec = buildSpecOf (appRoot props) envKeys;
         app = node_path this ''App'';
         s4 = s3 @ [New app (App
                \<lparr> appName = replace_slashes this,
                  role = amplifySSRLoggingRole,
                  sourceCodeProvider = repo_path repository,
                  buildSpec = buildSpec,
                  app_environmentVariables = envVars \<rparr>)];
         s5 = s4 @ [addPropertyOverride (defaultChild app) ''Platform'' ''WEB_COMPUTE''];
         s6 = s5 @ [addEnvironment app ''NEXT_PRIVATE_OUTPUT_TRACE_ROOT''
                      (outputFileTracingRoot (appRoot props))];
         s7 = s6 @ [addEnvironment app ''AMPLIFY_MONOREPO_APP_ROOT'' (appRoot props)];
         s8 = s7 @ [addEnvironment app ''AMPLIFY_DIFF_DEPLOY'' ''false''];
         s9 = s8 @ [addEnvironment app ''_LIVE_UPDATES'' (JSON_stringify cdk (liveUpdates props))];
         s10 = s9 @ [addCustomRule app
                      \<lparr> source = ''/<*>'', target = ''/index.html'', status = NOT_FOUND_REWRITE \<rparr>];
         prodBranch = node_path app ''ProdBranch'';
         prodBranchOptions =
            \<lparr> branchName = ''main'',
              stage = ''PRODUCTION'',
              autoBuild = True,
              branch_environmentVariables =
                [(''NEXT_PUBLIC_SITE_URL'', ''https://main.'' @ appId cdk app @ ''.amplifyapp.com'')] \<rparr>;
         s11 = s10 @ [New prodBranch (Branch app prodBranchOptions)];
         s12 = s11 @ [addPropertyOverride (defaultChild prodBranch) ''Framework'' ''Next.js - SSR''];
         s13 = s12 @ [addDependency repoImportJob (defaultChild prodBranch)];
         amplifySSRLoggingPolicy = node_path this ''AmplifySSRLoggingPolicy'';
         s14 = s13 @ [New amplifySSRLoggingPolicy (Policy (amplifySSRLoggingPolicyProps cdk app))];
         s15 = s14 @ [attachToRole amplifySSRLoggingPolicy amplifySSRLoggingRole];
         prodBranchUrl = ''https://'' @ branchName prodBranchOptions @ ''.'' @ defaultDomain cdk app;
         s16 = s15 @ [New (node_path this ''Url'') (CfnOutput prodBranchUrl)]
     in (\<lparr> app = app, prodBranch = prodBranch, prodBranchUrl = prodBranchUrl \<rparr>, s16))"

subsection \<open>Reading the construct tree\<close>

text \<open>The custom resources, the Amplify branches and the Lambda functions created so far,
  with their paths.\<close>

fun customResources :: "Synth \<Rightarrow> (path \<times> CustomResourceProps) list" where
  "customResources [] = []"
| "customResources (New p (CustomResource r) # s) = (p, r) # customResources s"
| "customResources (c # s) = customResources s"

fun branches :: "Synth \<Rightarrow> (path \<times> BranchOptions) list" where
  "branches [] = []"
| "branches (New p (Branch a b) # s) = (p, b) # branches s"
| "branches (c # s) = branches s"

fun lambdaFunctions :: "Synth \<Rightarrow> (path \<times> FunctionProps) list" where
  "lambdaFunctions [] = []"
| "lambdaFunctions (New p (LambdaFunction f) # s) = (p, f) # lambdaFunctions s"
| "lambdaFunctions (c # s) = lambdaFunctions s"

fun providers :: "Synth \<Rightarrow> (path \<times> path) list" where
  "providers [] = []"
| "providers (New p (Provider onEventHandler) # s) = (p, onEventHandler) # providers s"
| "providers (c # s) = providers s"

text \<open>
  The environment variables of the app with path \<open>a\<close>: the ones it was created with,
  then every \<^verbatim>\<open>addEnvironment\<close>, which assigns \<^verbatim>\<open>environmentVariables[name] = value\<close>.
\<close>

fun assign :: "string \<Rightarrow> string \<Rightarrow> (string \<times> string) list \<Rightarrow> (string \<times> string) list" where
  "assign k v [] = [(k, v)]"
| "assign k v ((k', v') # e) = (if k' = k then (k, v) # e else (k', v') # assign k v e)"

fun environment_step :: "path \<Rightarrow> Call \<Rightarrow> (string \<times> string) list \<Rightarrow> (string \<times> string) list" where
  "environment_step a (New p (App props)) e = (if p = a then app_environmentVariables props else e)"
| "environment_step a (addEnvironment p k v) e = (if p = a then assign k v e else e)"
| "environment_step a c e = e"

definition environment :: "Synth \<Rightarrow> path \<Rightarrow> (string \<times> string) list" where
  "environment s a = fold (environment_step a) s []"

text \<open>
  The rights on the repository \<open>repo\<close> that the calls made so far grant to \<open>grantee\<close>:
  \<^verbatim>\<open>grantPullPush\<close> grants pulling and pushing.
\<close>

datatype Right = Pull | Push

fun granted :: "Synth \<Rightarrow> path \<Rightarrow> path \<Rightarrow> Right list" where
  "granted [] repo grantee = []"
| "granted (grantPullPush r g # s) repo grantee =
     (if r = repo \<and> g = grantee then [Pull, Push] else []) @ granted s repo grantee"
| "granted (c # s) repo grantee = granted s repo grantee"

text \<open>
  The declared dependencies, as pairs (dependent, dependency), and the deployment orders
  that respect them: a dependent that is deployed has its dependency deployed earlier.
\<close>

fun dependencies :: "Synth \<Rightarrow> (path \<times> path) list" where
  "dependencies [] = []"
| "dependencies (addDependency a b # s) = (a, b) # dependencies s"
| "dependencies (c # s) = dependencies s"

fun position :: "'a \<Rightarrow> 'a list \<Rightarrow> nat option" where
  "position x [] = None"
| "position x (y # ys) = (if x = y then Some 0 else map_option Suc (position x ys))"

definition deployed_after :: "path list \<Rightarrow> path \<times> path \<Rightarrow> bool" where
  "deployed_after order d =
    (case position (fst d) order of
       None \<Rightarrow> True
     | Some i \<Rightarrow> (case position (snd d) order of None \<Rightarrow> False | Some j \<Rightarrow> j < i))"

definition respects_dependencies :: "path list \<Rightarrow> (path \<times> path) list \<Rightarrow> bool" where
  "respects_dependencies order deps = list_all (deployed_after order) deps"

section \<open>The import job behind \<^verbatim>\<open>index.handler\<close>\<close>

text \<open>
  The function created by \<open>Repository_new\<close> runs the asset \<^verbatim>\<open>./src/functions/copy-git-repo\<close>
  (handler \<^verbatim>\<open>index.handler\<close>). That asset is not among the sources at hand, so this section
  follows the specification's sections 3 to 7: the lifecycle event handler, the mirror job
  engine, the git client and the completion reporter. The git client is the fake the
  specification's design notes ask for: a world of branch heads with scripted failures.
  Real time (the invocation time budget) is outside the model.
\<close>

subsection \<open>Data model\<close>

text \<open>
  Modelled from the spec: the data model of section 3 and the error taxonomy of sections
  4.2 and 7, for the handler that is not among the sources.
\<close>

type_synonym CommitRef = string

datatype ImportError =
    AuthenticationFailure
  | NetworkFailure
  | SourceNotFound
  | TargetUnreachable
  | TransferVerificationFailure
  | Timeout
  | InternalError

record ImportRequest =
  sourceRepoUrl :: string
  req_sourceBranch :: string
  targetRepoUrl :: string
  targetBranch :: string

datatype Mode = Full | Reconcile

datatype RequestType = Create | Update | Delete

text \<open>
  Modelled from the spec: the inbound event of the handler (section 6), which is not among
  the sources. \<open>ResourceProperties\<close> is the JSON-like mapping it arrives as, so that a
  property can be missing; \<open>PhysicalResourceId\<close> is present on Update and Delete.
\<close>

record LifecycleEvent =
  RequestType :: RequestType
  ResourceProperties :: "string \<Rightarrow> string option"
  PhysicalResourceId :: "string option"

text \<open>
  Modelled from the spec: the field names of \<open>ResourceProperties\<close> in the inbound event
  (section 6), read by the handler that is not among the sources.
\<close>

definition ResourceProperties_fields :: "string list" where
  "ResourceProperties_fields = [''SourceRepo'', ''SourceBranch'', ''TargetRepo'', ''TargetBranch'']"

text \<open>
  Modelled from the spec: the completion signal of section 3, for the handler that is not
  among the sources.
\<close>

datatype Outcome = Success | Failed

record CompletionSignal =
  outcome :: Outcome
  physicalResourceId :: string
  reason :: "string option"
  data :: "(string \<times> string) list"

subsection \<open>The git client\<close>

text \<open>
  Modelled from the spec: the three operations of the client of section 4.3, which is not
  among the sources, as they are attempted: url, branch, and for a push whether it forces.
\<close>

datatype GitOp =
    HeadCommit string string
  | Clone string string
  | PushTo string string bool

text \<open>
  Modelled from the spec: the world the git client of section 4.3 acts on, for the client
  that is not among the sources. \<open>heads\<close> are the branch heads of the repositories, by url
  and branch; \<open>faults\<close> scripts the operations that fail, with the error the client reports;
  \<open>races\<close> gives the commit a concurrent writer leaves on a branch right after a push to it
  lands; \<open>workdirs\<close> are the working directories that exist, with the commit checked out
  in each; \<open>git_log\<close> records every operation attempted.
\<close>

record World =
  heads :: "string \<times> string \<Rightarrow> CommitRef option"
  faults :: "GitOp \<Rightarrow> ImportError option"
  races :: "string \<times> string \<Rightarrow> CommitRef option"
  workdirs :: "(nat \<times> CommitRef option) list"
  git_log :: "GitOp list"

text \<open>
  Modelled from the spec: the record of an operation of the client that is not among the
  sources; every operation is logged when it is attempted, whether or not it fails.
\<close>

definition attempt :: "GitOp \<Rightarrow> World \<Rightarrow> World" where
  "attempt op w = w\<lparr>git_log := git_log w @ [op]\<rparr>"

text \<open>
  Modelled from the spec: \<^verbatim>\<open>headCommit(url, branch) -> CommitRef\<close> of section 4.3, whose
  code is not among the sources. A branch that does not exist is reported as
  \<open>SourceNotFound\<close>.
\<close>

definition headCommit :: "World \<Rightarrow> string \<Rightarrow> string \<Rightarrow> (ImportError + CommitRef) \<times> World" where
  "headCommit w url branch =
    (let w' = attempt (HeadCommit url branch) w
     in case faults w (HeadCommit url branch) of
          Some e \<Rightarrow> (Inl e, w')
        | None \<Rightarrow>
            (case heads w (url, branch) of
               None \<Rightarrow> (Inl SourceNotFound, w')
             | Some c \<Rightarrow> (Inr c, w')))"

text \<open>
  Modelled from the spec: the checkout that a clone of section 4.3 leaves in the working
  directory \<open>d\<close>, for the client that is not among the sources.
\<close>

fun checkout :: "nat \<Rightarrow> CommitRef \<Rightarrow> (nat \<times> CommitRef option) list \<Rightarrow> (nat \<times> CommitRef option) list" where
  "checkout d c [] = []"
| "checkout d c ((d', x) # ds) = (if d' = d then (d, Some c) # ds else (d', x) # checkout d c ds)"

text \<open>
  Modelled from the spec: \<^verbatim>\<open>clone(url, branch, destDir) -> CommitRef\<close> of section 4.3, whose
  code is not among the sources.
\<close>

definition clone :: "World \<Rightarrow> string \<Rightarrow> string \<Rightarrow> nat \<Rightarrow> (ImportError + CommitRef) \<times> World" where
  "clone w url branch destDir =
    (let w' = attempt (Clone url branch) w
     in case faults w (Clone url branch) of
          Some e \<Rightarrow> (Inl e, w')
        | None \<Rightarrow>
            (case heads w (url, branch) of
               None \<Rightarrow> (Inl SourceNotFound, w')
             | Some c \<Rightarrow> (Inr c, w'\<lparr>workdirs := checkout destDir c (workdirs w')\<rparr>)))"

text \<open>
  Modelled from the spec: \<^verbatim>\<open>push(destDir, targetUrl, branch, force) -> void\<close> of section
  4.3, whose code is not among the sources. By section 5 a push either fully lands or is
  rejected: a push that fails leaves every head as it was. A push that lands creates the
  branch if it is absent; a concurrent writer (\<open>races\<close>) may then overwrite it.
\<close>

definition push :: "World \<Rightarrow> nat \<Rightarrow> string \<Rightarrow> string \<Rightarrow> bool \<Rightarrow> (ImportError + unit) \<times> World" where
  "push w destDir targetUrl branch force =
    (let w' = attempt (PushTo targetUrl branch force) w
     in case faults w (PushTo targetUrl branch force) of
          Some e \<Rightarrow> (Inl e, w')
        | None \<Rightarrow>
            (case map_of (workdirs w) destDir of
               Some (Some c) \<Rightarrow>
                 (Inr (),
                  w'\<lparr>heads := (heads w')((targetUrl, branch) :=
                        Some (case races w (targetUrl, branch) of None \<Rightarrow> c | Some c' \<Rightarrow> c'))\<rparr>)
             | _ \<Rightarrow> (Inl InternalError, w')))"

subsection \<open>The mirror job engine\<close>

text \<open>
  Modelled from the spec: step 1 of section 4.2, for the engine that is not among the
  sources. The working directory is a fresh one, and it is removed on every exit path.
\<close>

definition fresh_dir :: "World \<Rightarrow> nat" where
  "fresh_dir w = Suc (fold max (map fst (workdirs w)) 0)"

definition acquire :: "World \<Rightarrow> nat \<times> World" where
  "acquire w = (let d = fresh_dir w in (d, w\<lparr>workdirs := (d, None) # workdirs w\<rparr>))"

definition release :: "nat \<Rightarrow> World \<Rightarrow> World" where
  "release d w = w\<lparr>workdirs := filter (\<lambda>x. fst x \<noteq> d) (workdirs w)\<rparr>"

text \<open>
  Modelled from the spec: steps 4 to 6 of section 4.2, for the engine that is not among the
  sources: clone the source branch, push it to the target branch with force (the design
  choice for mirror fidelity), then verify that the target's head is the fetched source head
  \<open>c\<close>.
\<close>

definition transfer :: "World \<Rightarrow> ImportRequest \<Rightarrow> CommitRef \<Rightarrow> nat \<Rightarrow> (ImportError + CommitRef) \<times> World" where
  "transfer w request c dir =
    (case clone w (sourceRepoUrl request) (req_sourceBranch request) dir of
       (Inl e, w1) \<Rightarrow> (Inl e, w1)
     | (Inr cloned, w1) \<Rightarrow>
         (case push w1 dir (targetRepoUrl request) (targetBranch request) True of
            (Inl e, w2) \<Rightarrow> (Inl e, w2)
          | (Inr u, w2) \<Rightarrow>
              (case headCommit w2 (targetRepoUrl request) (targetBranch request) of
                 (Inl e, w3) \<Rightarrow> (Inl e, w3)
               | (Inr t, w3) \<Rightarrow>
                   if t = c then (Inr t, w3) else (Inl TransferVerificationFailure, w3))))"

text \<open>
  Modelled from the spec: steps 2 and 3 of section 4.2, for the engine that is not among
  the sources: fetch the source head; in Reconcile mode skip the transfer when the target's
  head already equals it, and otherwise (also when the target's head cannot be read)
  transfer.
\<close>

definition run_in :: "nat \<Rightarrow> World \<Rightarrow> ImportRequest \<Rightarrow> Mode \<Rightarrow> (ImportError + CommitRef) \<times> World" where
  "run_in dir w request mode =
    (case headCommit w (sourceRepoUrl request) (req_sourceBranch request) of
       (Inl e, w1) \<Rightarrow> (Inl e, w1)
     | (Inr c, w1) \<Rightarrow>
         (case mode of
            Full \<Rightarrow> transfer w1 request c dir
          | Reconcile \<Rightarrow>
              (case headCommit w1 (targetRepoUrl request) (targetBranch request) of
                 (Inr t, w2) \<Rightarrow> if t = c then (Inr t, w2) else transfer w2 request c dir
               | (Inl e, w2) \<Rightarrow> transfer w2 request c dir)))"

text \<open>
  Modelled from the spec: \<^verbatim>\<open>run(request, mode) -> Result<CommitRef, ImportError>\<close> of
  section 4.2, for the engine that is not among the sources.
\<close>

definition run :: "World \<Rightarrow> ImportRequest \<Rightarrow> Mode \<Rightarrow> (ImportError + CommitRef) \<times> World" where
  "run w request mode =
    (let (dir, w0) = acquire w;
         (result, w1) = run_in dir w0 request mode
     in (result, release dir w1))"

subsection \<open>The lifecycle event handler and the completion reporter\<close>

text \<open>
  Modelled from the spec: what section 4.1 leaves to the implementation of the handler that
  is not among the sources: the function that derives the physical id from the target
  repository and branch, the test for a well-formed url, and the physical id reported when
  the event carries none and none can be derived.
\<close>

record Conventions =
  physicalIdOf :: "string \<Rightarrow> string \<Rightarrow> string"
  wellFormedUrl :: "string \<Rightarrow> bool"
  unknownId :: string

text \<open>
  Modelled from the spec: the validation of section 4.1 (all fields of the request present,
  no malformed url), for the handler that is not among the sources. The reason names the
  first property that is missing, in the order of \<open>ResourceProperties_fields\<close>.
\<close>

definition missing :: "string \<Rightarrow> string" where
  "missing f = ''Missing required property: '' @ f"

definition parse_request :: "Conventions \<Rightarrow> (string \<Rightarrow> string option) \<Rightarrow> string + ImportRequest" where
  "parse_request cv props =
    (case props ''SourceRepo'' of
       None \<Rightarrow> Inl (missing ''SourceRepo'')
     | Some sr \<Rightarrow>
    (case props ''SourceBranch'' of
       None \<Rightarrow> Inl (missing ''SourceBranch'')
     | Some sb \<Rightarrow>
    (case props ''TargetRepo'' of
       None \<Rightarrow> Inl (missing ''TargetRepo'')
     | Some tr \<Rightarrow>
    (case props ''TargetBranch'' of
       None \<Rightarrow> Inl (missing ''TargetBranch'')
     | Some tb \<Rightarrow>
         if \<not> wellFormedUrl cv sr then Inl ''Malformed url: SourceRepo''
         else if \<not> wellFormedUrl cv tr then Inl ''Malformed url: TargetRepo''
         else Inr \<lparr> sourceRepoUrl = sr, req_sourceBranch = sb,
                    targetRepoUrl = tr, targetBranch = tb \<rparr>))))"

text \<open>
  Modelled from the spec: the human-readable reason of section 7 for each error, without
  urls or credentials, for the handler that is not among the sources.
\<close>

fun describe :: "ImportError \<Rightarrow> string" where
  "describe AuthenticationFailure = ''Authentication failed''"
| "describe NetworkFailure = ''Network failure''"
| "describe SourceNotFound = ''Source repository or branch not found''"
| "describe TargetUnreachable = ''Target repository unreachable''"
| "describe TransferVerificationFailure = ''Target head does not match the source head after the push''"
| "describe Timeout = ''Timed out''"
| "describe InternalError = ''Internal error''"

text \<open>
  Modelled from the spec: the two completion signals of section 4.1, and the import that
  Create and Update share, for the handler that is not among the sources. A success
  carries the commit reference as its one output attribute.
\<close>

definition succeeded :: "string \<Rightarrow> CommitRef \<Rightarrow> CompletionSignal" where
  "succeeded pid c =
    \<lparr> outcome = Success, physicalResourceId = pid, reason = None, data = [(''CommitRef'', c)] \<rparr>"

definition failed :: "string \<Rightarrow> string \<Rightarrow> CompletionSignal" where
  "failed pid why = \<lparr> outcome = Failed, physicalResourceId = pid, reason = Some why, data = [] \<rparr>"

definition import :: "World \<Rightarrow> ImportRequest \<Rightarrow> Mode \<Rightarrow> string \<Rightarrow> CompletionSignal \<times> World" where
  "import w request mode pid =
    (case run w request mode of
       (Inr c, w') \<Rightarrow> (succeeded pid c, w')
     | (Inl e, w') \<Rightarrow> (failed pid (describe e), w'))"

text \<open>
  Modelled from the spec: \<^verbatim>\<open>handle(event) -> CompletionSignal\<close> of section 4.1, for the
  handler that is not among the sources. Create validates the request, derives the
  physical id and imports in Full mode; Update reuses the supplied physical id and imports
  in Reconcile mode; Delete returns Success at once with the supplied physical id. An
  unexpected input is answered with Failed.
\<close>

definition handle :: "Conventions \<Rightarrow> World \<Rightarrow> LifecycleEvent \<Rightarrow> CompletionSignal \<times> World" where
  "handle cv w event =
    (case RequestType event of
       Create \<Rightarrow>
         (case parse_request cv (ResourceProperties event) of
            Inl why \<Rightarrow> (failed (unknownId cv) why, w)
          | Inr request \<Rightarrow>
              import w request Full (physicalIdOf cv (targetRepoUrl request) (targetBranch request)))
     | Update \<Rightarrow>
         (case PhysicalResourceId event of
            None \<Rightarrow> (failed (unknownId cv) ''Missing PhysicalResourceId'', w)
          | Some pid \<Rightarrow>
              (case parse_request cv (ResourceProperties event) of
                 Inl why \<Rightarrow> (failed pid why, w)
               | Inr request \<Rightarrow> import w request Reconcile pid))
     | Delete \<Rightarrow>
         (case PhysicalResourceId event of
            None \<Rightarrow> (failed (unknownId cv) ''Missing PhysicalResourceId'', w)
          | Some pid \<Rightarrow>
              (\<lparr> outcome = Success, physicalResourceId = pid, reason = None, data = [] \<rparr>, w)))"

text \<open>
  Modelled from the spec: one invocation with the completion reporter of section 4.4, for
  the handler that is not among the sources: the signal of \<open>handle\<close> is delivered once,
  appended to the signals the orchestrator has received.
\<close>

definition invoke ::
    "Conventions \<Rightarrow> World \<times> CompletionSignal list \<Rightarrow> LifecycleEvent \<Rightarrow> World \<times> CompletionSignal list" where
  "invoke cv st event =
    (let (signal, w') = handle cv (fst st) event in (w', snd st @ [signal]))"

text \<open>
  Modelled from the spec: the operations an invocation attempted (what it appended to the
  log of \<open>w\<close>), and which of them transfer data: a clone and a push do, reading a head
  does not (sections 4.2 and 8).
\<close>

definition attempted :: "World \<Rightarrow> World \<Rightarrow> GitOp list" where
  "attempted w w' = drop (length (git_log w)) (git_log w')"

fun is_transfer :: "GitOp \<Rightarrow> bool" where
  "is_transfer (HeadCommit url branch) = False"
| "is_transfer (Clone url branch) = True"
| "is_transfer (PushTo url branch force) = True"

section \<open>Example inputs\<close>

definition example_cdk :: Cdk where
  "example_cdk =
    \<lparr> repositoryCloneUrlGrc = (\<lambda>p. ''codecommit::eu-west-1://'' @ p),
      serviceToken = (\<lambda>p. ''arn:aws:lambda:eu-west-1:111122223333:function:'' @ p),
      appId = (\<lambda>p. ''d1a2b3c4'' ),
      defaultDomain = (\<lambda>p. ''d1a2b3c4.amplifyapp.com''),
      PARTITION = ''aws'',
      REGION = ''eu-west-1'',
      ACCOUNT_ID = ''111122223333'',
      JSON_stringify = (\<lambda>u. ''[]'') \<rparr>"

definition example_props :: AmplifyHostingProps where
  "example_props =
    \<lparr> sourceRepo = ''https://github.com/supabase/supabase.git'',
      sourceBranch = ''master'',
      appRoot = ''apps/studio'',
      environmentVariables = Some [(''STUDIO_PG_META_URL'', ''https://api.example.com/pg'')],
      liveUpdates = [] \<rparr>"

definition example_conventions :: Conventions where
  "example_conventions =
    \<lparr> physicalIdOf = (\<lambda>repo branch. repo @ ''#'' @ branch),
      wellFormedUrl = (\<lambda>url. url \<noteq> []),
      unknownId = ''unknown'' \<rparr>"

definition example_request :: ImportRequest where
  "example_request =
    \<lparr> sourceRepoUrl = ''https://github.com/supabase/supabase.git'',
      req_sourceBranch = ''master'',
      targetRepoUrl = ''codecommit::eu-west-1://WebRepo'',
      targetBranch = ''main'' \<rparr>"

definition example_properties :: "string \<Rightarrow> string option" where
  "example_properties =
    map_of [ (''SourceRepo'', ''https://github.com/supabase/supabase.git''),
             (''SourceBranch'', ''master''),
             (''TargetRepo'', ''codecommit::eu-west-1://WebRepo''),
             (''TargetBranch'', ''main'') ]"

text \<open>A world in which only the source branch exists, and nothing fails.\<close>

definition example_world :: World where
  "example_world =
    \<lparr> heads = map_of [((''https://github.com/supabase/supabase.git'', ''master''), ''c0ffee'')],
      faults = (\<lambda>op. None),
      races = (\<lambda>k. None),
      workdirs = [],
      git_log = [] \<rparr>"

text \<open>The same world, with the target rejecting the push.\<close>

definition push_rejected :: World where
  "push_rejected = example_world\<lparr>faults :=
      (\<lambda>op. if op = PushTo ''codecommit::eu-west-1://WebRepo'' ''main'' True
            then Some AuthenticationFailure else None)\<rparr>"

text \<open>A world without any repository, in which every operation fails.\<close>

definition unreachable :: World where
  "unreachable =
    \<lparr> heads = (\<lambda>k. None),
      faults = (\<lambda>op. Some NetworkFailure),
      races = (\<lambda>k. None),
      workdirs = [],
      git_log = [] \<rparr>"

definition create_event :: LifecycleEvent where
  "create_event =
    \<lparr> RequestType = Create, ResourceProperties = example_properties, PhysicalResourceId = None \<rparr>"

definition create_without_SourceBranch :: LifecycleEvent where
  "create_without_SourceBranch =
    \<lparr> RequestType = Create,
      ResourceProperties = example_properties(''SourceBranch'' := None),
      PhysicalResourceId = None \<rparr>"

definition delete_event :: LifecycleEvent where
  "delete_event =
    \<lparr> RequestType = Delete, ResourceProperties = (\<lambda>f. None),
      PhysicalResourceId = Some ''codecommit::eu-west-1://WebRepo#main'' \<rparr>"

section \<open>What the hosting constructs guarantee\<close>

subsection \<open>Auxiliary facts\<close>

lemma length_split_from: "length (split_from sep seg s) = Suc (count_list s sep)"
  by (induction s arbitrary: seg) auto

lemma length_split: "length (split r CHR ''/'') = Suc (count_list r CHR ''/'')"
  by (simp add: split_def length_split_from)

lemma join_dots: "join (replicate (Suc n) ''..'') ''/'' @ ''/'' = concat (replicate (Suc n) ''../'')"
  by (induction n) auto

lemma map_const: "map (\<lambda>x. c) xs = replicate (length xs) c"
  by (induction xs) auto

lemma outputFileTracingRoot_replicate:
  "outputFileTracingRoot r = concat (replicate (length (split r CHR ''/'')) ''../'')"
  unfolding outputFileTracingRoot_def map_const length_split by (rule join_dots)

lemma map_of_assign: "map_of (assign k v e) k' = (if k' = k then Some v else map_of e k')"
  by (induction e) auto

lemma environment_append:
  "environment (a @ b) p = fold (environment_step p) b (environment a p)"
  by (simp add: environment_def)

lemma customResources_append: "customResources (a @ b) = customResources a @ customResources b"
  by (induction a rule: customResources.induct) auto

lemma branches_append: "branches (a @ b) = branches a @ branches b"
  by (induction a rule: branches.induct) auto

lemma lambdaFunctions_append: "lambdaFunctions (a @ b) = lambdaFunctions a @ lambdaFunctions b"
  by (induction a rule: lambdaFunctions.induct) auto

lemma providers_append: "providers (a @ b) = providers a @ providers b"
  by (induction a rule: providers.induct) auto

lemma dependencies_append: "dependencies (a @ b) = dependencies a @ dependencies b"
  by (induction a rule: dependencies.induct) auto

lemma granted_append: "granted (a @ b) repo g = granted a repo g @ granted b repo g"
  by (induction a repo g rule: granted.induct) auto

lemma position_Some_iff: "x \<in> set xs \<longleftrightarrow> (\<exists>i. position x xs = Some i)"
  by (induction xs) auto

lemma respects_last:
  assumes "respects_dependencies order (ds @ [(a, b)])" and "a \<in> set order"
  shows "\<exists>i j. position b order = Some j \<and> position a order = Some i \<and> j < i"
  using assms
  by (auto simp: respects_dependencies_def deployed_after_def position_Some_iff split: option.splits)

subsection \<open>The import job's custom resource\<close>

text \<open>
  C1. Every call \<^verbatim>\<open>importFromUrl(targetBranch, sourceRepoUrlHttp, sourceBranch)\<close> adds one
  construct to the tree, a custom resource of type \<^verbatim>\<open>Custom::RepoImportJob\<close>, and returns
  it. Its properties are exactly the four fields \<^verbatim>\<open>SourceRepo\<close> (the source url),
  \<^verbatim>\<open>SourceBranch\<close> (the source branch), \<^verbatim>\<open>TargetRepo\<close> (the repository's GRC clone url) and
  \<^verbatim>\<open>TargetBranch\<close> (the target branch); their names are the field names of the inbound
  event's \<^verbatim>\<open>ResourceProperties\<close>.
\<close>

theorem importFromUrl_custom_resource:
  "\<exists>p. importFromUrl cdk this tb src sb s
         = (node_path (repo_path this) tb, s @ [New (node_path (repo_path this) tb) (CustomResource p)])
     \<and> resourceType p = ''Custom::RepoImportJob''
     \<and> properties p =
         [ (''SourceRepo'', src), (''SourceBranch'', sb),
           (''TargetRepo'', repositoryCloneUrlGrc cdk (repo_path this)), (''TargetBranch'', tb) ]
     \<and> map fst (properties p) = ResourceProperties_fields"
  by (simp add: importFromUrl_def Let_def ResourceProperties_fields_def)

subsection \<open>The import function and its rights\<close>

text \<open>
  C6. Every construction of a \<^verbatim>\<open>Repository\<close> creates one Lambda function, the import
  function. Its \<^verbatim>\<open>timeout\<close> is \<^verbatim>\<open>Duration.minutes(3)\<close>, that is 180 seconds, its handler is
  \<^verbatim>\<open>index.handler\<close>, and it is the event handler of the one provider the construction
  creates. (That the platform cuts an invocation off at this budget is the platform's
  behaviour in real time, which the model does not cover.)
\<close>

theorem importFunction_timeout:
  "\<exists>f. lambdaFunctions (snd (Repository_new scope ident name s))
         = lambdaFunctions s @ [(importFunction (fst (Repository_new scope ident name s)), f)]
     \<and> timeout f = Duration_minutes 3
     \<and> toSeconds (timeout f) = 180
     \<and> handler f = ''index.handler''
     \<and> providers (snd (Repository_new scope ident name s))
         = providers s @ [(importProvider (fst (Repository_new scope ident name s)),
                           importFunction (fst (Repository_new scope ident name s)))]"
  by (simp add: Repository_new_def Let_def lambdaFunctions_append providers_append
      importFunctionProps_def)

text \<open>
  C7. In every construction of a \<^verbatim>\<open>Repository\<close> the import provider is created by the
  last call, with the import function as its event handler, and the calls made before it
  create no provider and already grant the import function both the right to pull from and
  the right to push to the repository.
\<close>

theorem grantPullPush_before_importProvider:
  "\<exists>before. snd (Repository_new scope ident name s)
         = before @ [New (importProvider (fst (Repository_new scope ident name s)))
                        (Provider (importFunction (fst (Repository_new scope ident name s))))]
     \<and> providers before = providers s
     \<and> Pull \<in> set (granted before (repo_path (fst (Repository_new scope ident name s)))
                       (importFunction (fst (Repository_new scope ident name s))))
     \<and> Push \<in> set (granted before (repo_path (fst (Repository_new scope ident name s)))
                       (importFunction (fst (Repository_new scope ident name s))))"
  apply (rule exI[of _ "butlast (snd (Repository_new scope ident name s))"])
  apply (simp add: Repository_new_def Let_def granted_append providers_append butlast_append)
  done

subsection \<open>The hosting construct\<close>

text \<open>
  C8. For all properties of \<^verbatim>\<open>AmplifyHosting\<close>, whatever the source branch, the construct
  creates one custom resource, whose \<^verbatim>\<open>TargetBranch\<close> is \<^verbatim>\<open>main\<close>, and one Amplify branch,
  whose \<^verbatim>\<open>branchName\<close> is \<^verbatim>\<open>main\<close>.
\<close>

theorem target_branch_is_main:
  "map (\<lambda>r. map_of (properties (snd r)) ''TargetBranch'')
       (customResources (snd (AmplifyHosting_new cdk scope ident props [])))
     = [Some ''main'']
   \<and> map (\<lambda>b. branchName (snd b)) (branches (snd (AmplifyHosting_new cdk scope ident props [])))
     = [''main'']"
  by (simp add: AmplifyHosting_new_def Repository_new_def importFromUrl_def Let_def
      customResources_append branches_append)

text \<open>
  C9. Every \<^verbatim>\<open>AmplifyHosting\<close> construct creates one custom resource, the repository import
  job of type \<^verbatim>\<open>Custom::RepoImportJob\<close>, and one Amplify branch, the production branch
  \<^verbatim>\<open>main\<close> of its app, and it declares one dependency: the import job depends on the default
  child of that production branch, its CloudFormation resource. So every deployment order
  that respects the declared dependencies and deploys the import job has deployed the
  production branch's resource before it.
\<close>

theorem import_job_depends_on_prodBranch:
  "\<exists>job r b.
       customResources (snd (AmplifyHosting_new cdk scope ident props s))
         = customResources s @ [(job, r)]
     \<and> resourceType r = ''Custom::RepoImportJob''
     \<and> branches (snd (AmplifyHosting_new cdk scope ident props s))
         = branches s @ [(prodBranch (fst (AmplifyHosting_new cdk scope ident props s)), b)]
     \<and> branchName b = ''main'' \<and> stage b = ''PRODUCTION''
     \<and> prodBranch (fst (AmplifyHosting_new cdk scope ident props s))
         = node_path (app (fst (AmplifyHosting_new cdk scope ident props s))) ''ProdBranch''
     \<and> dependencies (snd (AmplifyHosting_new cdk scope ident props s))
         = dependencies s @
             [(job, defaultChild (prodBranch (fst (AmplifyHosting_new cdk scope ident props s))))]
     \<and> (\<forall>order.
           respects_dependencies order (dependencies (snd (AmplifyHosting_new cdk scope ident props s)))
           \<longrightarrow> job \<in> set order
           \<longrightarrow> (\<exists>i j. position (defaultChild (prodBranch (fst (AmplifyHosting_new cdk scope ident props s))))
                        order = Some j
                    \<and> position job order = Some i \<and> j < i))"
proof -
  let ?h = "AmplifyHosting_new cdk scope ident props s"
  let ?job = "node_path (node_path (node_path scope ident) ''Repo'') ''main''"
  obtain r where cr: "customResources (snd ?h) = customResources s @ [(?job, r)]"
    and rt: "resourceType r = ''Custom::RepoImportJob''"
    by (simp add: AmplifyHosting_new_def Repository_new_def importFromUrl_def Let_def
        customResources_append)
  obtain b where br: "branches (snd ?h) = branches s @ [(prodBranch (fst ?h), b)]"
    and bn: "branchName b = ''main''" and st: "stage b = ''PRODUCTION''"
    by (simp add: AmplifyHosting_new_def Repository_new_def importFromUrl_def Let_def
        branches_append)
  have pb: "prodBranch (fst ?h) = node_path (app (fst ?h)) ''ProdBranch''"
    by (simp add: AmplifyHosting_new_def Repository_new_def importFromUrl_def Let_def)
  have dep: "dependencies (snd ?h) = dependencies s @ [(?job, defaultChild (prodBranch (fst ?h)))]"
    by (simp add: AmplifyHosting_new_def Repository_new_def importFromUrl_def Let_def
        dependencies_append)
  have ord: "\<exists>i j. position (defaultChild (prodBranch (fst ?h))) order = Some j
                 \<and> position ?job order = Some i \<and> j < i"
    if "respects_dependencies order (dependencies (snd ?h))" and "?job \<in> set order" for order
    using that respects_last unfolding dep by blast
  from cr rt br bn st pb dep ord show ?thesis
    by blast
qed

theorem import_job_depends_on_prodBranch_witness:
  "respects_dependencies [''Stack/Web/App/ProdBranch/Resource'', ''Stack/Web/Repo/main'']
     (dependencies (snd (AmplifyHosting_new example_cdk ''Stack'' ''Web'' example_props [])))
   \<and> ''Stack/Web/Repo/main''
       \<in> set [''Stack/Web/App/ProdBranch/Resource'', ''Stack/Web/Repo/main'']
   \<and> map fst (customResources (snd (AmplifyHosting_new example_cdk ''Stack'' ''Web'' example_props [])))
       = [''Stack/Web/Repo/main'']
   \<and> map fst (branches (snd (AmplifyHosting_new example_cdk ''Stack'' ''Web'' example_props [])))
       = [''Stack/Web/App/ProdBranch'']
   \<and> position ''Stack/Web/App/ProdBranch/Resource''
         [''Stack/Web/App/ProdBranch/Resource'', ''Stack/Web/Repo/main''] = Some 0
   \<and> position ''Stack/Web/Repo/main''
         [''Stack/Web/App/ProdBranch/Resource'', ''Stack/Web/Repo/main''] = Some 1"
proof -
  let ?h = "AmplifyHosting_new example_cdk ''Stack'' ''Web'' example_props []"
  let ?order = "[''Stack/Web/App/ProdBranch/Resource'', ''Stack/Web/Repo/main'']"
  from import_job_depends_on_prodBranch [of example_cdk "''Stack''" "''Web''" example_props "[]"]
  obtain job r b where
    job: "customResources (snd ?h) = customResources [] @ [(job, r)]" and
    br: "branches (snd ?h) = branches [] @ [(prodBranch (fst ?h), b)]" and
    dep: "dependencies (snd ?h) = dependencies [] @ [(job, defaultChild (prodBranch (fst ?h)))]" and
    ord: "\<forall>order. respects_dependencies order (dependencies (snd ?h)) \<longrightarrow> job \<in> set order
           \<longrightarrow> (\<exists>i j. position (defaultChild (prodBranch (fst ?h))) order = Some j
                    \<and> position job order = Some i \<and> j < i)"
    by blast
  have cr: "map fst (customResources (snd ?h)) = [''Stack/Web/Repo/main'']"
    by (simp add: AmplifyHosting_new_def Repository_new_def importFromUrl_def Let_def
        customResources_append node_path_def)
  have pb: "prodBranch (fst ?h) = ''Stack/Web/App/ProdBranch''"
    by (simp add: AmplifyHosting_new_def Repository_new_def importFromUrl_def Let_def
        node_path_def)
  have branch: "defaultChild (prodBranch (fst ?h)) = ''Stack/Web/App/ProdBranch/Resource''"
    by (simp add: pb defaultChild_def node_path_def)
  from job cr have j: "job = ''Stack/Web/Repo/main''" by simp
  from br pb have bs: "map fst (branches (snd ?h)) = [''Stack/Web/App/ProdBranch'']" by simp
  have resp: "respects_dependencies ?order (dependencies (snd ?h))"
    unfolding dep j branch by (simp add: respects_dependencies_def deployed_after_def)
  have mem: "job \<in> set ?order"
    by (simp add: j)
  from ord resp mem have "\<exists>i k. position (defaultChild (prodBranch (fst ?h))) ?order = Some k
      \<and> position job ?order = Some i \<and> k < i"
    by blast
  with resp cr bs show ?thesis by simp
qed

text \<open>
  C10. For every \<^verbatim>\<open>appRoot\<close>, the environment of the app has
  \<^verbatim>\<open>NEXT_PRIVATE_OUTPUT_TRACE_ROOT\<close> set to \<^verbatim>\<open>../\<close> repeated once for each segment of
  \<^verbatim>\<open>appRoot.split('/')\<close>. The number of segments is one more than the number of \<^verbatim>\<open>/\<close> in
  \<^verbatim>\<open>appRoot\<close>, so the empty \<^verbatim>\<open>appRoot\<close> gives \<^verbatim>\<open>../\<close>.
\<close>

theorem output_trace_root_per_segment:
  "map_of (environment (snd (AmplifyHosting_new cdk scope ident props s))
             (app (fst (AmplifyHosting_new cdk scope ident props s))))
          ''NEXT_PRIVATE_OUTPUT_TRACE_ROOT''
     = Some (concat (replicate (length (split (appRoot props) CHR ''/'')) ''../''))
   \<and> length (split (appRoot props) CHR ''/'') = Suc (count_list (appRoot props) CHR ''/'')
   \<and> outputFileTracingRoot [] = ''../''"
  by (simp add: AmplifyHosting_new_def Repository_new_def importFromUrl_def Let_def
      environment_append map_of_assign outputFileTracingRoot_replicate length_split)

section \<open>Properties of the import job\<close>

subsection \<open>Auxiliary facts\<close>

lemma attempt_simps [simp]:
  "heads (attempt op w) = heads w"
  "faults (attempt op w) = faults w"
  "races (attempt op w) = races w"
  "workdirs (attempt op w) = workdirs w"
  "git_log (attempt op w) = git_log w @ [op]"
  by (simp_all add: attempt_def)

lemma headCommit_effect:
  "headCommit w u b = (r, w1) \<Longrightarrow>
     w1 = attempt (HeadCommit u b) w
     \<and> ((\<exists>e. r = Inl e) \<or> (\<exists>c. r = Inr c \<and> faults w (HeadCommit u b) = None \<and> heads w (u, b) = Some c))"
  by (auto simp: headCommit_def Let_def split: option.splits)

lemma clone_effect:
  "clone w u b d = (r, w1) \<Longrightarrow>
     (\<exists>e. r = Inl e \<and> w1 = attempt (Clone u b) w)
     \<or> (\<exists>c. r = Inr c \<and> faults w (Clone u b) = None \<and> heads w (u, b) = Some c
           \<and> w1 = (attempt (Clone u b) w)\<lparr>workdirs := checkout d c (workdirs w)\<rparr>)"
  by (auto simp: clone_def Let_def split: option.splits)

lemma push_effect:
  "push w d u b f = (r, w1) \<Longrightarrow>
     (\<exists>e. r = Inl e \<and> w1 = attempt (PushTo u b f) w
          \<and> (faults w (PushTo u b f) = Some e \<or> faults w (PushTo u b f) = None))
     \<or> (\<exists>c. r = Inr () \<and> faults w (PushTo u b f) = None
           \<and> w1 = (attempt (PushTo u b f) w)\<lparr>heads := (heads w)((u, b) := Some c)\<rparr>)"
  by (auto simp: push_def Let_def split: option.splits)

lemma transfer_Inr:
  assumes "transfer w req c0 dir = (Inr c, w')"
  shows "c = c0 \<and> heads w' (targetRepoUrl req, targetBranch req) = Some c0
       \<and> faults w' = faults w
       \<and> faults w (HeadCommit (targetRepoUrl req) (targetBranch req)) = None
       \<and> (\<forall>k. k \<noteq> (targetRepoUrl req, targetBranch req) \<longrightarrow> heads w' k = heads w k)"
  using assms unfolding transfer_def
  by (auto split: prod.splits sum.splits if_splits
      dest!: headCommit_effect clone_effect push_effect)


lemma transfer_keeps_source:
  assumes "transfer w req c0 dir = (Inr c, w')" and "heads w k = Some c0"
  shows "heads w' k = Some c0"
  using transfer_Inr[OF assms(1)] assms(2)
  by (cases k) (metis (no_types, lifting))

lemma run_in_Inr:
  assumes "run_in dir w req Reconcile = (Inr c, w')"
  shows "heads w' (sourceRepoUrl req, req_sourceBranch req) = Some c
       \<and> heads w' (targetRepoUrl req, targetBranch req) = Some c
       \<and> faults w (HeadCommit (targetRepoUrl req) (targetBranch req)) = None
       \<and> faults w (HeadCommit (sourceRepoUrl req) (req_sourceBranch req)) = None
       \<and> faults w' = faults w"
proof -
  obtain r1 w1 where h1: "headCommit w (sourceRepoUrl req) (req_sourceBranch req) = (r1, w1)"
    by force
  obtain r2 w2 where h2: "headCommit w1 (targetRepoUrl req) (targetBranch req) = (r2, w2)"
    by force
  from assms h1 obtain c0 where r1: "r1 = Inr c0"
    by (cases r1) (auto simp: run_in_def)
  from headCommit_effect[OF h1] r1
  have w1: "w1 = attempt (HeadCommit (sourceRepoUrl req) (req_sourceBranch req)) w"
    and f1: "faults w (HeadCommit (sourceRepoUrl req) (req_sourceBranch req)) = None"
    and s1: "heads w (sourceRepoUrl req, req_sourceBranch req) = Some c0"
    by auto
  from headCommit_effect[OF h2]
  have w2: "w2 = attempt (HeadCommit (targetRepoUrl req) (targetBranch req)) w1"
    by simp
  show ?thesis
  proof (cases "r2 = Inr c0")
    case True
    with assms h1 h2 r1 have "c = c0" "w' = w2"
      by (auto simp: run_in_def)
    with headCommit_effect[OF h2] True w1 w2 f1 s1 show ?thesis
      by auto
  next
    case False
    with assms h1 h2 r1 have t: "transfer w2 req c0 dir = (Inr c, w')"
      by (cases r2) (auto simp: run_in_def)
    from transfer_Inr[OF t] transfer_keeps_source[OF t, of "(sourceRepoUrl req, req_sourceBranch req)"]
      w1 w2 f1 s1
    show ?thesis by auto
  qed
qed


lemma run_in_skip:
  assumes "faults w (HeadCommit (sourceRepoUrl req) (req_sourceBranch req)) = None"
    and "heads w (sourceRepoUrl req, req_sourceBranch req) = Some c"
    and "faults w (HeadCommit (targetRepoUrl req) (targetBranch req)) = None"
    and "heads w (targetRepoUrl req, targetBranch req) = Some c"
  shows "run_in d w req Reconcile
       = (Inr c, attempt (HeadCommit (targetRepoUrl req) (targetBranch req))
                   (attempt (HeadCommit (sourceRepoUrl req) (req_sourceBranch req)) w))"
  using assms by (simp add: run_in_def headCommit_def Let_def)

lemma acquire_simps [simp]:
  "heads (snd (acquire w)) = heads w"
  "faults (snd (acquire w)) = faults w"
  "races (snd (acquire w)) = races w"
  "git_log (snd (acquire w)) = git_log w"
  by (simp_all add: acquire_def Let_def)

lemma release_simps [simp]:
  "heads (release d w) = heads w"
  "faults (release d w) = faults w"
  "races (release d w) = races w"
  "git_log (release d w) = git_log w"
  by (simp_all add: release_def)

lemma run_unfold:
  "run w req mode =
     (fst (run_in (fst (acquire w)) (snd (acquire w)) req mode),
      release (fst (acquire w)) (snd (run_in (fst (acquire w)) (snd (acquire w)) req mode)))"
  by (simp add: run_def case_prod_beta Let_def)

lemma transfer_push_faulted:
  assumes "transfer w req c0 dir = (r, w')"
    and "PushTo u b f \<in> set (attempted w w')"
    and "faults w (PushTo u b f) = Some e"
  shows "r = Inl e \<and> heads w' = heads w
       \<and> u = targetRepoUrl req \<and> b = targetBranch req \<and> f
       \<and> faults w (Clone (sourceRepoUrl req) (req_sourceBranch req)) = None
       \<and> heads w (sourceRepoUrl req, req_sourceBranch req) \<noteq> None"
  using assms unfolding transfer_def attempted_def
  by (auto split: prod.splits sum.splits if_splits
      dest!: headCommit_effect clone_effect push_effect)

lemma transfer_log:
  assumes "transfer w req c0 dir = (r, w')"
  shows "\<exists>ops. git_log w' = git_log w @ ops"
  using assms unfolding transfer_def
  by (auto split: prod.splits sum.splits if_splits
      dest!: headCommit_effect clone_effect push_effect)


lemma attempted_attempt:
  "git_log w' = git_log (attempt op w) @ ops \<Longrightarrow> attempted w w' = op # ops"
  by (simp add: attempted_def)

lemma attempted_self [simp]: "attempted w w = []"
  by (simp add: attempted_def)

lemma run_in_push_faulted:
  assumes r: "run_in dir w req mode = (r, w')"
    and mem: "PushTo u b f \<in> set (attempted w w')"
    and flt: "faults w (PushTo u b f) = Some e"
  shows "r = Inl e \<and> heads w' = heads w
       \<and> u = targetRepoUrl req \<and> b = targetBranch req \<and> f
       \<and> faults w (Clone (sourceRepoUrl req) (req_sourceBranch req)) = None
       \<and> heads w (sourceRepoUrl req, req_sourceBranch req) \<noteq> None"
proof -
  let ?hs = "HeadCommit (sourceRepoUrl req) (req_sourceBranch req)"
  let ?ht = "HeadCommit (targetRepoUrl req) (targetBranch req)"
  obtain r1 w1 where h1: "headCommit w (sourceRepoUrl req) (req_sourceBranch req) = (r1, w1)"
    by force
  from headCommit_effect[OF h1] have w1: "w1 = attempt ?hs w" by simp
  have tr: "r = Inl e \<and> heads w' = heads w
       \<and> u = targetRepoUrl req \<and> b = targetBranch req \<and> f
       \<and> faults w (Clone (sourceRepoUrl req) (req_sourceBranch req)) = None
       \<and> heads w (sourceRepoUrl req, req_sourceBranch req) \<noteq> None"
    if t: "transfer v req c0 dir = (r, w')" and v: "heads v = heads w" "faults v = faults w"
      and pre: "\<exists>hs. git_log v = git_log w @ hs \<and> PushTo u b f \<notin> set hs" for v c0
  proof -
    from transfer_log[OF t] obtain ops where ops: "git_log w' = git_log v @ ops" by blast
    with pre mem have "PushTo u b f \<in> set (attempted v w')"
      by (auto simp: attempted_def)
    from transfer_push_faulted[OF t this] flt v show ?thesis by simp
  qed
  show ?thesis
  proof (cases r1)
    case (Inl e1)
    with r h1 w1 have "w' = attempt ?hs w" by (simp add: run_in_def)
    with mem show ?thesis by (simp add: attempted_def)
  next
    case (Inr c0)
    show ?thesis
    proof (cases mode)
      case Full
      with r h1 Inr have "transfer w1 req c0 dir = (r, w')" by (simp add: run_in_def)
      then show ?thesis by (rule tr) (simp_all add: w1)
    next
      case Reconcile
      obtain r2 w2 where h2: "headCommit w1 (targetRepoUrl req) (targetBranch req) = (r2, w2)"
        by force
      from headCommit_effect[OF h2] have w2: "w2 = attempt ?ht w1" by simp
      show ?thesis
      proof (cases "r2 = Inr c0")
        case True
        with r h1 h2 Inr Reconcile have "w' = w2" by (simp add: run_in_def)
        with mem w1 w2 show ?thesis by (simp add: attempted_def)
      next
        case False
        with r h1 h2 Inr Reconcile have "transfer w2 req c0 dir = (r, w')"
          by (cases r2) (auto simp: run_in_def)
        then show ?thesis by (rule tr) (simp_all add: w1 w2)
      qed
    qed
  qed
qed

lemma run_push_faulted:
  assumes "run w req mode = (r, w')"
    and "PushTo u b f \<in> set (attempted w w')"
    and "faults w (PushTo u b f) = Some e"
  shows "r = Inl e \<and> heads w' = heads w
       \<and> u = targetRepoUrl req \<and> b = targetBranch req \<and> f
       \<and> faults w (Clone (sourceRepoUrl req) (req_sourceBranch req)) = None
       \<and> heads w (sourceRepoUrl req, req_sourceBranch req) \<noteq> None"
proof -
  let ?d = "fst (acquire w)" and ?w0 = "snd (acquire w)"
  obtain v where r: "run_in ?d ?w0 req mode = (r, v)" and w': "w' = release ?d v"
    using assms(1) by (cases "run_in ?d ?w0 req mode") (auto simp: run_unfold)
  from assms(2) w' have "PushTo u b f \<in> set (attempted ?w0 v)"
    by (simp add: attempted_def)
  from run_in_push_faulted[OF r this] assms(3) w' show ?thesis by simp
qed

lemmas model_defs = run_def run_in_def transfer_def acquire_def release_def fresh_dir_def
  headCommit_def clone_def push_def attempt_def Let_def

lemma first_run: "fst (run example_world example_request Reconcile) = Inr ''c0ffee''"
  by (simp add: model_defs example_world_def example_request_def)

lemma parse_missing:
  assumes "f \<in> set ResourceProperties_fields" and "props f = None"
  shows "\<exists>g. g \<in> set ResourceProperties_fields \<and> props g = None
           \<and> parse_request cv props = Inl (missing g)"
proof (cases "props ''SourceRepo''")
  case None
  then show ?thesis
    by (intro exI[of _ "''SourceRepo''"]) (simp add: ResourceProperties_fields_def parse_request_def)
next
  case sr: (Some sr)
  show ?thesis
  proof (cases "props ''SourceBranch''")
    case None
    with sr show ?thesis
      by (intro exI[of _ "''SourceBranch''"]) (simp add: ResourceProperties_fields_def parse_request_def)
  next
    case sb: (Some sb)
    show ?thesis
    proof (cases "props ''TargetRepo''")
      case None
      with sr sb show ?thesis
        by (intro exI[of _ "''TargetRepo''"]) (simp add: ResourceProperties_fields_def parse_request_def)
    next
      case tr: (Some tr)
      show ?thesis
      proof (cases "props ''TargetBranch''")
        case None
        with sr sb tr show ?thesis
          by (intro exI[of _ "''TargetBranch''"]) (simp add: ResourceProperties_fields_def parse_request_def)
      next
        case (Some tb)
        with sr sb tr assms have False
          by (auto simp: ResourceProperties_fields_def)
        then show ?thesis ..
      qed
    qed
  qed
qed


subsection \<open>Reconcile mode\<close>

text \<open>
  C2. When an invocation of the engine in Reconcile mode returns the commit \<open>c\<close>, the next
  invocation in Reconcile mode, on the world the first one left (so with the source
  branch's head unchanged), returns \<open>c\<close> as well. It attempts exactly two operations, reading
  the source's head and reading the target's head: no clone and no push. It leaves every
  branch head as it was.
\<close>

theorem reconcile_twice_no_transfer:
  assumes "run w req Reconcile = (Inr c, w1)"
  shows "\<exists>w2. run w1 req Reconcile = (Inr c, w2)
           \<and> attempted w1 w2 = [HeadCommit (sourceRepoUrl req) (req_sourceBranch req),
                                 HeadCommit (targetRepoUrl req) (targetBranch req)]
           \<and> filter is_transfer (attempted w1 w2) = []
           \<and> heads w2 = heads w1"
proof -
  let ?d = "fst (acquire w)" and ?w0 = "snd (acquire w)"
  obtain w1' where r: "run_in ?d ?w0 req Reconcile = (Inr c, w1')" and w1: "w1 = release ?d w1'"
    using assms by (cases "run_in ?d ?w0 req Reconcile") (auto simp: run_unfold)
  from run_in_Inr[OF r] w1
  have f: "faults w1 (HeadCommit (sourceRepoUrl req) (req_sourceBranch req)) = None"
          "faults w1 (HeadCommit (targetRepoUrl req) (targetBranch req)) = None"
    and h: "heads w1 (sourceRepoUrl req, req_sourceBranch req) = Some c"
           "heads w1 (targetRepoUrl req, targetBranch req) = Some c"
    by simp_all
  let ?e = "fst (acquire w1)" and ?v = "snd (acquire w1)"
  have "run_in ?e ?v req Reconcile
       = (Inr c, attempt (HeadCommit (targetRepoUrl req) (targetBranch req))
                   (attempt (HeadCommit (sourceRepoUrl req) (req_sourceBranch req)) ?v))"
    using f h by (intro run_in_skip) simp_all
  then show ?thesis
    by (simp add: run_unfold attempted_def)
qed

theorem reconcile_twice_no_transfer_witness:
  "fst (run example_world example_request Reconcile) = Inr ''c0ffee''
   \<and> fst (run (snd (run example_world example_request Reconcile)) example_request Reconcile) = Inr ''c0ffee''
   \<and> filter is_transfer (attempted (snd (run example_world example_request Reconcile))
        (snd (run (snd (run example_world example_request Reconcile)) example_request Reconcile))) = []"
proof -
  let ?w1 = "snd (run example_world example_request Reconcile)"
  have "run example_world example_request Reconcile = (Inr ''c0ffee'', ?w1)"
    using first_run by (simp add: prod_eq_iff)
  from reconcile_twice_no_transfer[OF this] show ?thesis
    using first_run by auto
qed


subsection \<open>A push that fails\<close>

text \<open>
  C3. In every invocation of the handler that attempts a push that the target fails with
  the error \<open>e\<close>: the signal is Failed, with the reason of \<open>e\<close>, and every branch head, so
  the target branch's head as well, is what it was before the invocation. Such an
  invocation has a well-formed request, the push is the forced push to the request's
  target branch, and the clone of the source branch before it did succeed.
\<close>

theorem failed_push_leaves_target:
  assumes "PushTo u b f \<in> set (attempted w (snd (handle cv w ev)))"
    and "faults w (PushTo u b f) = Some e"
  shows "outcome (fst (handle cv w ev)) = Failed
       \<and> reason (fst (handle cv w ev)) = Some (describe e)
       \<and> heads (snd (handle cv w ev)) = heads w
       \<and> (\<exists>req. parse_request cv (ResourceProperties ev) = Inr req
             \<and> u = targetRepoUrl req \<and> b = targetBranch req \<and> f
             \<and> faults w (Clone (sourceRepoUrl req) (req_sourceBranch req)) = None
             \<and> heads w (sourceRepoUrl req, req_sourceBranch req) \<noteq> None)"
proof -
  have imp: "outcome (fst (import w req mode pid)) = Failed
       \<and> reason (fst (import w req mode pid)) = Some (describe e)
       \<and> heads (snd (import w req mode pid)) = heads w
       \<and> u = targetRepoUrl req \<and> b = targetBranch req \<and> f
       \<and> faults w (Clone (sourceRepoUrl req) (req_sourceBranch req)) = None
       \<and> heads w (sourceRepoUrl req, req_sourceBranch req) \<noteq> None"
    if "PushTo u b f \<in> set (attempted w (snd (import w req mode pid)))" for req mode pid
  proof -
    obtain r w' where r: "run w req mode = (r, w')" by force
    then have "snd (import w req mode pid) = w'"
      by (cases r) (simp_all add: import_def)
    with that run_push_faulted[OF r _ assms(2)]
    have "r = Inl e \<and> heads w' = heads w
       \<and> u = targetRepoUrl req \<and> b = targetBranch req \<and> f
       \<and> faults w (Clone (sourceRepoUrl req) (req_sourceBranch req)) = None
       \<and> heads w (sourceRepoUrl req, req_sourceBranch req) \<noteq> None"
      by simp
    with r show ?thesis by (simp add: import_def failed_def)
  qed
  show ?thesis
  proof (cases "RequestType ev")
    case Create
    show ?thesis
    proof (cases "parse_request cv (ResourceProperties ev)")
      case (Inl why)
      with Create assms(1) show ?thesis by (simp add: handle_def)
    next
      case (Inr req)
      let ?pid = "physicalIdOf cv (targetRepoUrl req) (targetBranch req)"
      from Create Inr have h: "handle cv w ev = import w req Full ?pid"
        by (simp add: handle_def)
      from imp[of req Full ?pid] assms(1) Inr show ?thesis
        unfolding h by blast
    qed
  next
    case Update
    show ?thesis
    proof (cases "PhysicalResourceId ev")
      case None
      with Update assms(1) show ?thesis by (simp add: handle_def)
    next
      case (Some pid)
      show ?thesis
      proof (cases "parse_request cv (ResourceProperties ev)")
        case (Inl why)
        with Update Some assms(1) show ?thesis by (simp add: handle_def)
      next
        case (Inr req)
        from Update Some Inr have h: "handle cv w ev = import w req Reconcile pid"
          by (simp add: handle_def)
        from imp[of req Reconcile pid] assms(1) Inr show ?thesis
          unfolding h by blast
      qed
    qed
  next
    case Delete
    with assms(1) show ?thesis by (simp add: handle_def split: option.splits)
  qed
qed

theorem failed_push_leaves_target_witness:
  "PushTo ''codecommit::eu-west-1://WebRepo'' ''main'' True
      \<in> set (attempted push_rejected (snd (handle example_conventions push_rejected create_event)))
   \<and> faults push_rejected (PushTo ''codecommit::eu-west-1://WebRepo'' ''main'' True)
       = Some AuthenticationFailure
   \<and> outcome (fst (handle example_conventions push_rejected create_event)) = Failed
   \<and> reason (fst (handle example_conventions push_rejected create_event)) = Some ''Authentication failed''
   \<and> heads (snd (handle example_conventions push_rejected create_event)) = heads push_rejected"
proof -
  have mem: "PushTo ''codecommit::eu-west-1://WebRepo'' ''main'' True
      \<in> set (attempted push_rejected (snd (handle example_conventions push_rejected create_event)))"
    by (simp add: handle_def import_def parse_request_def model_defs attempted_def
        push_rejected_def create_event_def example_world_def example_properties_def
        example_conventions_def)
  have flt: "faults push_rejected (PushTo ''codecommit::eu-west-1://WebRepo'' ''main'' True)
       = Some AuthenticationFailure"
    by (simp add: push_rejected_def)
  from failed_push_leaves_target[OF mem flt] mem flt show ?thesis by simp
qed


subsection \<open>Delete and malformed Create\<close>

text \<open>
  C4. For every Delete event that carries a physical resource id, in every world (also one
  where the source cannot be reached), the handler returns Success with that physical
  resource id, leaves the world as it is and attempts no operation of the git client; the
  reporter delivers exactly this signal.
\<close>

theorem delete_succeeds_without_fetch:
  assumes "RequestType ev = Delete" and "PhysicalResourceId ev = Some pid"
  shows "handle cv w ev
           = (\<lparr> outcome = Success, physicalResourceId = pid, reason = None, data = [] \<rparr>, w)
       \<and> attempted w (snd (handle cv w ev)) = []
       \<and> invoke cv (w, delivered) ev
           = (w, delivered @ [\<lparr> outcome = Success, physicalResourceId = pid, reason = None, data = [] \<rparr>])"
  using assms by (simp add: handle_def attempted_def invoke_def)

theorem delete_succeeds_without_fetch_witness:
  "RequestType delete_event = Delete
   \<and> PhysicalResourceId delete_event = Some ''codecommit::eu-west-1://WebRepo#main''
   \<and> faults unreachable (HeadCommit ''https://github.com/supabase/supabase.git'' ''master'')
       = Some NetworkFailure
   \<and> handle example_conventions unreachable delete_event
       = (\<lparr> outcome = Success, physicalResourceId = ''codecommit::eu-west-1://WebRepo#main'',
            reason = None, data = [] \<rparr>, unreachable)"
proof -
  have t: "RequestType delete_event = Delete"
    by (simp add: delete_event_def)
  have p: "PhysicalResourceId delete_event = Some ''codecommit::eu-west-1://WebRepo#main''"
    by (simp add: delete_event_def)
  from delete_succeeds_without_fetch[OF t p, of example_conventions unreachable] t p
  show ?thesis by (simp add: unreachable_def)
qed

text \<open>
  C5. For every Create event whose request properties lack one of the four required
  fields, in every world, the handler returns Failed, never Success, with a reason that
  names a required field that is missing; it attempts nothing, and the reporter delivers
  exactly this one signal, so the invocation is answered.
\<close>

theorem malformed_create_fails:
  assumes "RequestType ev = Create"
    and "f \<in> set ResourceProperties_fields"
    and "ResourceProperties ev f = None"
  shows "outcome (fst (handle cv w ev)) = Failed
       \<and> outcome (fst (handle cv w ev)) \<noteq> Success
       \<and> (\<exists>g. g \<in> set ResourceProperties_fields \<and> ResourceProperties ev g = None
              \<and> reason (fst (handle cv w ev)) = Some (''Missing required property: '' @ g))
       \<and> snd (handle cv w ev) = w
       \<and> invoke cv (w, delivered) ev = (w, delivered @ [fst (handle cv w ev)])"
proof -
  from parse_missing[of f "ResourceProperties ev" cv, OF assms(2,3)] obtain g where
    g: "g \<in> set ResourceProperties_fields" "ResourceProperties ev g = None" and
    p: "parse_request cv (ResourceProperties ev) = Inl (missing g)"
    by blast
  from assms(1) p have h: "handle cv w ev = (failed (unknownId cv) (missing g), w)"
    by (simp add: handle_def)
  have "reason (fst (handle cv w ev)) = Some (''Missing required property: '' @ g)"
    by (simp add: h failed_def missing_def)
  with g have "\<exists>g. g \<in> set ResourceProperties_fields \<and> ResourceProperties ev g = None
              \<and> reason (fst (handle cv w ev)) = Some (''Missing required property: '' @ g)"
    by blast
  moreover have "outcome (fst (handle cv w ev)) = Failed"
    by (simp add: h failed_def)
  moreover have "invoke cv (w, delivered) ev = (w, delivered @ [fst (handle cv w ev)])"
    by (simp add: invoke_def h)
  ultimately show ?thesis
    by (simp add: h)
qed

theorem malformed_create_fails_witness:
  "RequestType create_without_SourceBranch = Create
   \<and> ''SourceBranch'' \<in> set ResourceProperties_fields
   \<and> ResourceProperties create_without_SourceBranch ''SourceBranch'' = None
   \<and> outcome (fst (handle example_conventions example_world create_without_SourceBranch)) = Failed
   \<and> reason (fst (handle example_conventions example_world create_without_SourceBranch))
       = Some ''Missing required property: SourceBranch''"
proof -
  have t: "RequestType create_without_SourceBranch = Create"
    by (simp add: create_without_SourceBranch_def)
  have m: "''SourceBranch'' \<in> set ResourceProperties_fields"
    by (simp add: ResourceProperties_fields_def)
  have n: "ResourceProperties create_without_SourceBranch ''SourceBranch'' = None"
    by (simp add: create_without_SourceBranch_def)
  have r: "reason (fst (handle example_conventions example_world create_without_SourceBranch))
       = Some ''Missing required property: SourceBranch''"
    by (simp add: handle_def parse_request_def missing_def failed_def
        create_without_SourceBranch_def example_properties_def)
  from malformed_create_fails[OF t m n, of example_conventions example_world] t m n r
  show ?thesis by simp
qed

end
